theory Spec2Isabelle
  imports Complex_Main
begin

section \<open>Python strings and the runtime tables the orchestrator relies on\<close>

text \<open>
  A Python \<^verbatim>\<open>str\<close> is a sequence of Unicode code points and \<^verbatim>\<open>len\<close> counts code points,
  so a string is a list of natural numbers here. String literals of the source are written
  \<open>lit ''...''\<close>.
\<close>

type_synonym codepoint = nat
type_synonym str = "codepoint list"

definition lit :: "string \<Rightarrow> str" where
  "lit s = map of_char s"

text \<open>
  \<^verbatim>\<open>str.lower\<close>, \<^verbatim>\<open>str.strip\<close> and the classes \<^verbatim>\<open>\s\<close>, \<^verbatim>\<open>\w\<close>, \<^verbatim>\<open>\d\<close>, \<^verbatim>\<open>\b\<close> of \<^verbatim>\<open>re\<close> are
  decided by the Unicode database of the Python runtime, which is not part of the
  repository. They are a parameter of the model: \<open>str_lower\<close> is \<^verbatim>\<open>str.lower\<close> (a function of
  the whole string, since the lowercase of a code point may be several code points and may
  depend on its position), \<open>isspace\<close> is the whitespace class used by both \<^verbatim>\<open>str.strip()\<close> and
  \<^verbatim>\<open>\s\<close>, \<open>isalnum\<close> is the alphanumeric class behind \<^verbatim>\<open>\w\<close> and \<^verbatim>\<open>\b\<close>, and \<open>isdecimal\<close> is
  the decimal-digit class of \<^verbatim>\<open>\d\<close>.
\<close>

record py_unicode =
  str_lower :: "str \<Rightarrow> str"
  isspace :: "codepoint \<Rightarrow> bool"
  isalnum :: "codepoint \<Rightarrow> bool"
  isdecimal :: "codepoint \<Rightarrow> bool"

text \<open>
  The tables of CPython on the code points below 128; code points from 128 on are left
  unchanged by \<open>str_lower\<close> and belong to no class. This instance agrees with the runtime on
  every ASCII string and serves to evaluate the model on ASCII inputs.
\<close>

definition ascii_lower :: "codepoint \<Rightarrow> codepoint" where
  "ascii_lower c = (if 65 \<le> c \<and> c \<le> 90 then c + 32 else c)"

definition ascii_isspace :: "codepoint \<Rightarrow> bool" where
  "ascii_isspace c = ((9 \<le> c \<and> c \<le> 13) \<or> (28 \<le> c \<and> c \<le> 32))"

definition ascii_isdecimal :: "codepoint \<Rightarrow> bool" where
  "ascii_isdecimal c = (48 \<le> c \<and> c \<le> 57)"

definition ascii_isalnum :: "codepoint \<Rightarrow> bool" where
  "ascii_isalnum c = (ascii_isdecimal c \<or> (65 \<le> c \<and> c \<le> 90) \<or> (97 \<le> c \<and> c \<le> 122))"

definition py_ascii :: py_unicode where
  "py_ascii = \<lparr>str_lower = map ascii_lower, isspace = ascii_isspace,
     isalnum = ascii_isalnum, isdecimal = ascii_isdecimal\<rparr>"

subsection \<open>String operations\<close>

text \<open>\<^verbatim>\<open>s.startswith(kw)\<close> and \<^verbatim>\<open>kw in s\<close>: \<open>kw\<close> occurs in \<open>s\<close> as a contiguous substring.\<close>

fun startswith :: "str \<Rightarrow> str \<Rightarrow> bool" where
  "startswith s [] = True"
| "startswith [] (k # kw) = False"
| "startswith (c # s) (k # kw) = (c = k \<and> startswith s kw)"

fun py_in :: "str \<Rightarrow> str \<Rightarrow> bool" where
  "py_in kw [] = (kw = [])"
| "py_in kw (c # s) = (startswith (c # s) kw \<or> py_in kw s)"

text \<open>\<^verbatim>\<open>s.strip()\<close>: leading and trailing whitespace removed.\<close>

definition py_strip :: "py_unicode \<Rightarrow> str \<Rightarrow> str" where
  "py_strip rt s = rev (dropWhile (isspace rt) (rev (dropWhile (isspace rt) s)))"

text \<open>\<^verbatim>\<open>s.count(c)\<close> for a pattern of one code point.\<close>

definition py_count :: "str \<Rightarrow> codepoint \<Rightarrow> int" where
  "py_count s c = int (length (filter (\<lambda>x. x = c) s))"

text \<open>\<^verbatim>\<open>sep.join(xs)\<close>.\<close>

fun join :: "str \<Rightarrow> str list \<Rightarrow> str" where
  "join sep [] = []"
| "join sep [x] = x"
| "join sep (x # y # xs) = x @ sep @ join sep (y # xs)"

subsection \<open>Regular expressions\<close>

text \<open>
  Every pattern of \<^verbatim>\<open>analyze_query\<close> is a sequence of literal code points, one-or-more
  repetitions of a character class (\<^verbatim>\<open>\s+\<close>, \<^verbatim>\<open>\w+\<close>, \<^verbatim>\<open>\d+\<close>) and word boundaries (\<^verbatim>\<open>\b\<close>).
  \<^verbatim>\<open>re.search\<close> is used for its truth value only: whether the pattern matches at some position.
\<close>

datatype char_class = Space | Word | Digit

datatype re_item = Lit codepoint | Plus char_class | Boundary

type_synonym pattern = "re_item list"

fun in_class :: "py_unicode \<Rightarrow> char_class \<Rightarrow> codepoint \<Rightarrow> bool" where
  "in_class rt Space c = isspace rt c"
| "in_class rt Word c = (isalnum rt c \<or> c = 95)"
| "in_class rt Digit c = isdecimal rt c"

text \<open>Whether the code point before (or after) a position is a word character; \<open>None\<close> at an end of the string.\<close>

fun is_word :: "py_unicode \<Rightarrow> codepoint option \<Rightarrow> bool" where
  "is_word rt None = False"
| "is_word rt (Some c) = in_class rt Word c"

fun next_char :: "str \<Rightarrow> codepoint option" where
  "next_char [] = None"
| "next_char (c # s) = Some c"

text \<open>
  \<open>match_here rt p prev s\<close>: pattern \<open>p\<close> matches a prefix of \<open>s\<close>, where \<open>prev\<close> is the code
  point just before \<open>s\<close> in the searched string. A repetition tries every number of
  iterations, as the backtracking matcher does.
\<close>

fun match_here :: "py_unicode \<Rightarrow> pattern \<Rightarrow> codepoint option \<Rightarrow> str \<Rightarrow> bool" where
  "match_here rt [] prev s = True"
| "match_here rt (Lit c # p) prev [] = False"
| "match_here rt (Lit c # p) prev (x # s) = (x = c \<and> match_here rt p (Some x) s)"
| "match_here rt (Boundary # p) prev s =
     (is_word rt prev \<noteq> is_word rt (next_char s) \<and> match_here rt p prev s)"
| "match_here rt (Plus cls # p) prev [] = False"
| "match_here rt (Plus cls # p) prev (x # s) =
     (in_class rt cls x \<and> (match_here rt p (Some x) s \<or> match_here rt (Plus cls # p) (Some x) s))"

fun search_from :: "py_unicode \<Rightarrow> pattern \<Rightarrow> codepoint option \<Rightarrow> str \<Rightarrow> bool" where
  "search_from rt p prev [] = match_here rt p prev []"
| "search_from rt p prev (x # s) = (match_here rt p prev (x # s) \<or> search_from rt p (Some x) s)"

definition re_search :: "py_unicode \<Rightarrow> pattern \<Rightarrow> str \<Rightarrow> bool" where
  "re_search rt p s = search_from rt p None s"

definition lits :: "string \<Rightarrow> pattern" where
  "lits s = map Lit (lit s)"

section \<open>config.py\<close>

text \<open>
  Of \<^verbatim>\<open>Settings\<close> only the two deployment names reach the orchestrator, through
  \<^verbatim>\<open>MODEL_CONFIGS\<close>. Their values come from the environment; \<open>Settings_default\<close> holds the
  defaults of the class.
\<close>

record Settings =
  azure_openai_gpt4_deployment :: str
  azure_openai_gpt35_deployment :: str

definition Settings_default :: Settings where
  "Settings_default = \<lparr>azure_openai_gpt4_deployment = lit ''gpt-4'',
     azure_openai_gpt35_deployment = lit ''gpt-35-turbo''\<rparr>"

text \<open>
  An entry of \<^verbatim>\<open>MODEL_CONFIGS\<close>. The cost is a float literal in the source; it is kept as the
  decimal fraction the literal denotes and no operation of the orchestrator computes with it.
\<close>

record model_config =
  deployment_name :: str
  display_name :: str
  description :: str
  max_tokens :: int
  capabilities :: "str list"
  complexity_threshold :: int
  cost_per_1k_tokens :: rat

text \<open>The dictionary keeps insertion order, so it is an association list.\<close>

definition MODEL_CONFIGS :: "Settings \<Rightarrow> (str \<times> model_config) list" where
  "MODEL_CONFIGS settings =
    [(lit ''gpt-4'',
      \<lparr>deployment_name = azure_openai_gpt4_deployment settings,
       display_name = lit ''GPT-4'',
       description = lit ''Most capable model for complex reasoning and analysis'',
       max_tokens = 8192,
       capabilities = [lit ''complex_reasoning'', lit ''code_generation'', lit ''analysis'',
         lit ''creative_writing''],
       complexity_threshold = 4,
       cost_per_1k_tokens = 3 / 100\<rparr>),
     (lit ''gpt-35-turbo'',
      \<lparr>deployment_name = azure_openai_gpt35_deployment settings,
       display_name = lit ''GPT-3.5 Turbo'',
       description = lit ''Fast and efficient for straightforward tasks'',
       max_tokens = 4096,
       capabilities = [lit ''general_chat'', lit ''simple_code'', lit ''summarization'',
         lit ''translation''],
       complexity_threshold = 2,
       cost_per_1k_tokens = 2 / 1000\<rparr>)]"

text \<open>
  \<^verbatim>\<open>COMPLEXITY_KEYWORDS\<close> is a dictionary with the three fixed keys that \<^verbatim>\<open>analyze_query\<close>
  reads; each holds a list of keywords.
\<close>

record keyword_lexicon =
  high :: "str list"
  medium :: "str list"
  low :: "str list"

definition COMPLEXITY_KEYWORDS :: keyword_lexicon where
  "COMPLEXITY_KEYWORDS =
    \<lparr>high = [lit ''analyze'', lit ''explain in detail'', lit ''compare'', lit ''contrast'',
       lit ''evaluate'', lit ''synthesize'', lit ''create a plan'', lit ''design'',
       lit ''architect'', lit ''optimize'', lit ''debug complex'', lit ''refactor'',
       lit ''implement algorithm''],
     medium = [lit ''summarize'', lit ''describe'', lit ''list'', lit ''what is'',
       lit ''how does'', lit ''example'', lit ''convert'', lit ''translate'', lit ''format'',
       lit ''write code''],
     low = [lit ''hi'', lit ''hello'', lit ''thanks'', lit ''yes'', lit ''no'', lit ''ok'',
       lit ''bye'']\<rparr>"

section \<open>orchestrator.py\<close>

record QueryOrchestrator =
  models :: "(str \<times> model_config) list"
  complexity_keywords :: keyword_lexicon

text \<open>\<^verbatim>\<open>QueryOrchestrator.__init__\<close>, and the global instance \<^verbatim>\<open>orchestrator\<close>.\<close>

definition QueryOrchestrator_init :: "Settings \<Rightarrow> QueryOrchestrator" where
  "QueryOrchestrator_init settings =
     \<lparr>models = MODEL_CONFIGS settings, complexity_keywords = COMPLEXITY_KEYWORDS\<rparr>"

definition orchestrator :: "Settings \<Rightarrow> QueryOrchestrator" where
  "orchestrator settings = QueryOrchestrator_init settings"

text \<open>
  The analysis dictionary. \<^verbatim>\<open>recommended_model\<close> starts as \<^verbatim>\<open>None\<close>; the keys
  \<^verbatim>\<open>selection_reason\<close> and \<^verbatim>\<open>was_auto_selected\<close> are absent until \<^verbatim>\<open>select_model\<close> stores
  them, which is \<open>None\<close> here as well.
\<close>

record analysis =
  length_score :: int
  keyword_score :: int
  structure_score :: int
  total_score :: int
  factors :: "str list"
  recommended_model :: "str option"
  selection_reason :: "str option"
  was_auto_selected :: "bool option"

definition new_analysis :: analysis where
  "new_analysis = \<lparr>length_score = 0, keyword_score = 0, structure_score = 0, total_score = 0,
     factors = [], recommended_model = None, selection_reason = None,
     was_auto_selected = None\<rparr>"

text \<open>\<^verbatim>\<open>analysis["factors"].append(f)\<close>\<close>

definition append_factor :: "str \<Rightarrow> analysis \<Rightarrow> analysis" where
  "append_factor f analysis = analysis\<lparr>factors := factors analysis @ [f]\<rparr>"

text \<open>Lines 30 to 40: length analysis.\<close>

definition length_analysis :: "str \<Rightarrow> analysis \<Rightarrow> analysis" where
  "length_analysis query analysis =
    (let query_length = int (length query) in
     if query_length > 1000 then
       append_factor (lit ''Very long query (>1000 chars)'') (analysis\<lparr>length_score := 3\<rparr>)
     else if query_length > 500 then
       append_factor (lit ''Long query (>500 chars)'') (analysis\<lparr>length_score := 2\<rparr>)
     else if query_length > 200 then
       append_factor (lit ''Medium length query'') (analysis\<lparr>length_score := 1\<rparr>)
     else analysis)"

text \<open>Lines 42 to 61: keyword analysis.\<close>

definition keyword_analysis :: "py_unicode \<Rightarrow> QueryOrchestrator \<Rightarrow> str \<Rightarrow> analysis \<Rightarrow> analysis" where
  "keyword_analysis rt self query analysis =
    (let query_lower = str_lower rt query;
         high_matches = filter (\<lambda>kw. py_in kw query_lower) (high (complexity_keywords self));
         analysis =
           (if high_matches \<noteq> [] then
              append_factor (lit ''High complexity keywords: '' @ join (lit '', '') (take 3 high_matches))
                (analysis\<lparr>keyword_score := keyword_score analysis + 2\<rparr>)
            else analysis);
         medium_matches = filter (\<lambda>kw. py_in kw query_lower) (medium (complexity_keywords self));
         analysis =
           (if medium_matches \<noteq> [] then
              append_factor (lit ''Medium complexity keywords detected'')
                (analysis\<lparr>keyword_score := keyword_score analysis + 1\<rparr>)
            else analysis);
         low_matches = filter (\<lambda>kw. py_strip rt query_lower = kw) (low (complexity_keywords self))
     in
       if low_matches \<noteq> [] then
         append_factor (lit ''Simple greeting/response'') (analysis\<lparr>keyword_score := 0\<rparr>)
       else analysis)"

text \<open>Lines 63 to 82: structure analysis.\<close>

definition code_patterns :: "pattern list" where
  "code_patterns =
    [lits ''```'',
     lits ''def'' @ [Plus Space, Plus Word],
     lits ''function'' @ [Plus Space, Plus Word],
     lits ''class'' @ [Plus Space, Plus Word],
     lits ''import'' @ [Plus Space],
     lits ''from'' @ [Plus Space, Plus Word, Plus Space] @ lits ''import'',
     lits ''=>'',
     [Boundary] @ lits ''const'' @ [Boundary],
     [Boundary] @ lits ''let'' @ [Boundary]]"

definition numbered_list_pattern :: pattern where
  "numbered_list_pattern = [Plus Digit] @ lits ''.'' @ [Plus Space]"

definition structure_analysis :: "py_unicode \<Rightarrow> str \<Rightarrow> analysis \<Rightarrow> analysis" where
  "structure_analysis rt query analysis =
    (let query_lower = str_lower rt query;
         analysis =
           (if list_ex (\<lambda>pattern. re_search rt pattern query) code_patterns then
              append_factor (lit ''Contains code or technical content'')
                (analysis\<lparr>structure_score := structure_score analysis + 2\<rparr>)
            else analysis);
         question_words = py_count query_lower (of_char CHR ''?'');
         analysis =
           (if question_words > 2 then
              append_factor (lit ''Multiple questions detected'')
                (analysis\<lparr>structure_score := structure_score analysis + 1\<rparr>)
            else analysis)
     in
       if re_search rt numbered_list_pattern query then
         append_factor (lit ''Structured list/steps detected'')
           (analysis\<lparr>structure_score := structure_score analysis + 1\<rparr>)
       else analysis)"

text \<open>\<^verbatim>\<open>QueryOrchestrator.analyze_query\<close>\<close>

definition analyze_query :: "py_unicode \<Rightarrow> QueryOrchestrator \<Rightarrow> str \<Rightarrow> analysis" where
  "analyze_query rt self query =
    (let analysis = new_analysis;
         analysis = length_analysis query analysis;
         analysis = keyword_analysis rt self query analysis;
         analysis = structure_analysis rt query analysis
     in analysis\<lparr>total_score :=
          length_score analysis + keyword_score analysis + structure_score analysis\<rparr>)"

text \<open>
  Lines 112 to 131 of \<^verbatim>\<open>select_model\<close>: the selection by complexity score, reached when no
  usable preferred model was given.
\<close>

definition select_by_score :: "py_unicode \<Rightarrow> QueryOrchestrator \<Rightarrow> str \<Rightarrow> str \<times> analysis" where
  "select_by_score rt self query =
    (let analysis = analyze_query rt self query;
         total_score = total_score analysis;
         (selected_model, analysis) =
           (if total_score \<ge> 4 then
              (lit ''gpt-4'', analysis\<lparr>selection_reason :=
                 Some (lit ''High complexity query - using GPT-4 for best results'')\<rparr>)
            else if total_score \<ge> 2 then
              (lit ''gpt-35-turbo'', analysis\<lparr>selection_reason :=
                 Some (lit ''Medium complexity - GPT-3.5 Turbo is efficient'')\<rparr>)
            else
              (lit ''gpt-35-turbo'', analysis\<lparr>selection_reason :=
                 Some (lit ''Simple query - using fast GPT-3.5 Turbo'')\<rparr>));
         analysis = analysis\<lparr>recommended_model := Some selected_model\<rparr>;
         analysis = analysis\<lparr>was_auto_selected := Some True\<rparr>
     in (selected_model, analysis))"

text \<open>\<^verbatim>\<open>key in self.models\<close>\<close>

definition in_models :: "str \<Rightarrow> QueryOrchestrator \<Rightarrow> bool" where
  "in_models key self = (key \<in> set (map fst (models self)))"

text \<open>
  \<^verbatim>\<open>QueryOrchestrator.select_model\<close>. The test \<^verbatim>\<open>preferred_model and preferred_model in
  self.models\<close> fails for \<^verbatim>\<open>None\<close> and for the empty string, which are both falsy.
\<close>

definition select_model :: "py_unicode \<Rightarrow> QueryOrchestrator \<Rightarrow> str \<Rightarrow> str option \<Rightarrow> str \<times> analysis" where
  "select_model rt self query preferred_model =
    (case preferred_model of
       None \<Rightarrow> select_by_score rt self query
     | Some preferred \<Rightarrow>
         if preferred \<noteq> [] \<and> in_models preferred self then
           (let analysis = analyze_query rt self query;
                analysis = analysis\<lparr>recommended_model := Some preferred\<rparr>;
                analysis = analysis\<lparr>selection_reason := Some (lit ''User specified model'')\<rparr>;
                analysis = analysis\<lparr>was_auto_selected := Some False\<rparr>
            in (preferred, analysis))
         else select_by_score rt self query)"

section \<open>Notions used to state the properties\<close>

text \<open>
  Automatic selection runs when the test \<^verbatim>\<open>preferred_model and preferred_model in
  self.models\<close> of \<^verbatim>\<open>select_model\<close> fails.
\<close>

definition auto_selection_runs :: "QueryOrchestrator \<Rightarrow> str option \<Rightarrow> bool" where
  "auto_selection_runs self preferred_model =
    (case preferred_model of None \<Rightarrow> True | Some p \<Rightarrow> p = [] \<or> \<not> in_models p self)"

text \<open>The three factor texts of the length analysis, and those of them an analysis lists.\<close>

definition length_factor_texts :: "str list" where
  "length_factor_texts = [lit ''Very long query (>1000 chars)'', lit ''Long query (>500 chars)'',
     lit ''Medium length query'']"

definition length_factors :: "analysis \<Rightarrow> str list" where
  "length_factors a = filter (\<lambda>f. f \<in> set length_factor_texts) (factors a)"

section \<open>Strings\<close>

lemma lit_eq_iff [simp]: "lit a = lit b \<longleftrightarrow> a = b"
  by (simp add: lit_def inj_map_eq_map [OF inj_of_char])

lemma lit_append_eq_iff [simp]:
  "lit (c # a) @ x = lit (d # b) \<longleftrightarrow> c = d \<and> lit a @ x = lit b"
  by (simp add: lit_def)

text \<open>\<open>py_in\<close> is substring containment.\<close>

lemma startswith_iff: "startswith s kw \<longleftrightarrow> (\<exists>ss. s = kw @ ss)"
  by (induction s kw rule: startswith.induct) auto

lemma py_in_iff: "py_in kw s \<longleftrightarrow> (\<exists>ps ss. s = ps @ kw @ ss)"
proof (induction s)
  case Nil
  show ?case by auto
next
  case (Cons c s)
  have "(\<exists>ps ss. c # s = ps @ kw @ ss) \<longleftrightarrow>
        (\<exists>ss. c # s = kw @ ss) \<or> (\<exists>ps ss. s = ps @ kw @ ss)"
    by (auto simp: Cons_eq_append_conv)
  with Cons show ?case by (simp add: startswith_iff)
qed

section \<open>The three stages of the analysis\<close>

lemma append_factor_simps [simp]:
  "length_score (append_factor f a) = length_score a"
  "keyword_score (append_factor f a) = keyword_score a"
  "structure_score (append_factor f a) = structure_score a"
  "total_score (append_factor f a) = total_score a"
  "factors (append_factor f a) = factors a @ [f]"
  "recommended_model (append_factor f a) = recommended_model a"
  "selection_reason (append_factor f a) = selection_reason a"
  "was_auto_selected (append_factor f a) = was_auto_selected a"
  by (simp_all add: append_factor_def)

lemma length_analysis_scores [simp]:
  "keyword_score (length_analysis q a) = keyword_score a"
  "structure_score (length_analysis q a) = structure_score a"
  by (simp_all add: length_analysis_def Let_def)

lemma length_analysis_length_score:
  "length_score (length_analysis q a) =
    (if 1000 < length q then 3 else if 500 < length q then 2 else if 200 < length q then 1
     else length_score a)"
  by (simp add: length_analysis_def Let_def)

lemma length_analysis_factors:
  "factors (length_analysis q a) = factors a @
    (if 1000 < length q then [lit ''Very long query (>1000 chars)'']
     else if 500 < length q then [lit ''Long query (>500 chars)'']
     else if 200 < length q then [lit ''Medium length query''] else [])"
  by (simp add: length_analysis_def Let_def)

lemma keyword_analysis_scores [simp]:
  "length_score (keyword_analysis rt self q a) = length_score a"
  "structure_score (keyword_analysis rt self q a) = structure_score a"
  by (simp_all add: keyword_analysis_def Let_def)

lemma keyword_analysis_keyword_score:
  "keyword_score (keyword_analysis rt self q a) =
    (if filter (\<lambda>kw. py_strip rt (str_lower rt q) = kw) (low (complexity_keywords self)) \<noteq> []
     then 0
     else keyword_score a
       + (if filter (\<lambda>kw. py_in kw (str_lower rt q)) (high (complexity_keywords self)) \<noteq> []
          then 2 else 0)
       + (if filter (\<lambda>kw. py_in kw (str_lower rt q)) (medium (complexity_keywords self)) \<noteq> []
          then 1 else 0))"
  by (simp add: keyword_analysis_def Let_def)

text \<open>No factor of the keyword or structure analysis is one of the length factors.\<close>

lemma keyword_analysis_length_factors:
  "length_factors (keyword_analysis rt self q a) = length_factors a"
  by (simp add: keyword_analysis_def Let_def length_factors_def length_factor_texts_def)

lemma structure_analysis_scores [simp]:
  "length_score (structure_analysis rt q a) = length_score a"
  "keyword_score (structure_analysis rt q a) = keyword_score a"
  by (simp_all add: structure_analysis_def Let_def)

lemma structure_analysis_length_factors:
  "length_factors (structure_analysis rt q a) = length_factors a"
  by (simp add: structure_analysis_def Let_def length_factors_def length_factor_texts_def)

lemma structure_analysis_keeps_factors:
  "set (factors a) \<subseteq> set (factors (structure_analysis rt q a))"
  by (auto simp: structure_analysis_def Let_def)

lemma analyze_query_fields:
  "length_score (analyze_query rt self q) = length_score (length_analysis q new_analysis)"
  "keyword_score (analyze_query rt self q) =
     keyword_score (keyword_analysis rt self q (length_analysis q new_analysis))"
  "length_factors (analyze_query rt self q) = length_factors (length_analysis q new_analysis)"
  by (simp_all add: analyze_query_def Let_def length_factors_def
      structure_analysis_length_factors [unfolded length_factors_def]
      keyword_analysis_length_factors [unfolded length_factors_def])

section \<open>The selection\<close>

lemma select_model_auto:
  "auto_selection_runs self preferred_model \<Longrightarrow>
   select_model rt self query preferred_model = select_by_score rt self query"
  by (auto simp: auto_selection_runs_def select_model_def split: option.splits)

lemma select_by_score_fst:
  "fst (select_by_score rt self query) =
     (if 4 \<le> total_score (analyze_query rt self query) then lit ''gpt-4''
      else lit ''gpt-35-turbo'')"
  by (simp add: select_by_score_def Let_def)

lemma select_by_score_snd:
  "snd (select_by_score rt self query) =
     (analyze_query rt self query)
       \<lparr>recommended_model := Some (fst (select_by_score rt self query)),
        selection_reason := Some
          (if 4 \<le> total_score (analyze_query rt self query)
           then lit ''High complexity query - using GPT-4 for best results''
           else if 2 \<le> total_score (analyze_query rt self query)
           then lit ''Medium complexity - GPT-3.5 Turbo is efficient''
           else lit ''Simple query - using fast GPT-3.5 Turbo''),
        was_auto_selected := Some True\<rparr>"
  by (simp add: select_by_score_def Let_def)

lemma models_keys:
  "map fst (models (orchestrator settings)) = [lit ''gpt-4'', lit ''gpt-35-turbo'']"
  by (simp add: orchestrator_def QueryOrchestrator_init_def MODEL_CONFIGS_def)

lemma in_models_orchestrator:
  "in_models key (orchestrator settings) \<longleftrightarrow> key = lit ''gpt-4'' \<or> key = lit ''gpt-35-turbo''"
  by (auto simp: in_models_def models_keys)

lemma in_models_nonempty: "in_models key (orchestrator settings) \<Longrightarrow> key \<noteq> []"
  by (auto simp: in_models_orchestrator lit_def)

section \<open>Evaluations on concrete queries\<close>

lemma total_score_examples:
  "total_score (analyze_query py_ascii (orchestrator Settings_default)
     (lit ''analyze and summarize ```'')) = 5"
  "total_score (analyze_query py_ascii (orchestrator Settings_default) (lit ''Compare them'')) = 2"
  "total_score (analyze_query py_ascii (orchestrator Settings_default) (lit ''hi'')) = 0"
  by code_simp+

lemma analyze_hi:
  "analyze_query py_ascii (orchestrator Settings_default) (lit ''hi'') =
     \<lparr>length_score = 0, keyword_score = 0, structure_score = 0, total_score = 0,
      factors = [lit ''Simple greeting/response''], recommended_model = None,
      selection_reason = None, was_auto_selected = None\<rparr>"
  by code_simp

lemma keyword_score_both_tiers:
  "keyword_score (analyze_query py_ascii (orchestrator Settings_default)
     (lit ''analyze and summarize'')) = 3"
  by code_simp

lemma not_in_models_example:
  "\<not> in_models (lit ''not-a-real-model'') (orchestrator Settings_default)"
  by (simp add: in_models_orchestrator)

section \<open>Properties of the orchestrator\<close>

text \<open>
  C1: when automatic selection runs, \<open>select_model\<close> routes by the total score of the
  analysis. A score of at least 4 selects \<^verbatim>\<open>gpt-4\<close> with the reason for high complexity; a
  score of 2 or 3 selects \<^verbatim>\<open>gpt-35-turbo\<close> with the reason for medium complexity; a score
  below 2 selects \<^verbatim>\<open>gpt-35-turbo\<close> with the reason for a simple query. The returned analysis
  has \<open>was_auto_selected\<close> true and the total score of the analysis.
\<close>

theorem select_model_routes_by_total_score:
  assumes "auto_selection_runs self preferred_model"
  shows "(4 \<le> total_score (analyze_query rt self query) \<longrightarrow>
            fst (select_model rt self query preferred_model) = lit ''gpt-4'' \<and>
            selection_reason (snd (select_model rt self query preferred_model)) =
              Some (lit ''High complexity query - using GPT-4 for best results'')) \<and>
         (2 \<le> total_score (analyze_query rt self query) \<and>
          total_score (analyze_query rt self query) < 4 \<longrightarrow>
            fst (select_model rt self query preferred_model) = lit ''gpt-35-turbo'' \<and>
            selection_reason (snd (select_model rt self query preferred_model)) =
              Some (lit ''Medium complexity - GPT-3.5 Turbo is efficient'')) \<and>
         (total_score (analyze_query rt self query) < 2 \<longrightarrow>
            fst (select_model rt self query preferred_model) = lit ''gpt-35-turbo'' \<and>
            selection_reason (snd (select_model rt self query preferred_model)) =
              Some (lit ''Simple query - using fast GPT-3.5 Turbo'')) \<and>
         was_auto_selected (snd (select_model rt self query preferred_model)) = Some True \<and>
         total_score (snd (select_model rt self query preferred_model)) =
           total_score (analyze_query rt self query)"
  by (simp add: select_model_auto [OF assms] select_by_score_fst select_by_score_snd)

text \<open>
  One query for each band: a score of 5 with no preference, a score of 2 with the empty
  string as preference, a score of 0 with an unknown model as preference.
\<close>

theorem select_model_routes_by_total_score_witness:
  "auto_selection_runs (orchestrator Settings_default) None \<and>
   fst (select_model py_ascii (orchestrator Settings_default) (lit ''analyze and summarize ```'')
     None) = lit ''gpt-4'' \<and>
   auto_selection_runs (orchestrator Settings_default) (Some []) \<and>
   fst (select_model py_ascii (orchestrator Settings_default) (lit ''Compare them'') (Some []))
     = lit ''gpt-35-turbo'' \<and>
   selection_reason (snd (select_model py_ascii (orchestrator Settings_default)
     (lit ''Compare them'') (Some []))) =
       Some (lit ''Medium complexity - GPT-3.5 Turbo is efficient'') \<and>
   auto_selection_runs (orchestrator Settings_default) (Some (lit ''not-a-real-model'')) \<and>
   fst (select_model py_ascii (orchestrator Settings_default) (lit ''hi'')
     (Some (lit ''not-a-real-model''))) = lit ''gpt-35-turbo'' \<and>
   selection_reason (snd (select_model py_ascii (orchestrator Settings_default) (lit ''hi'')
     (Some (lit ''not-a-real-model'')))) = Some (lit ''Simple query - using fast GPT-3.5 Turbo'')"
proof -
  have a: "auto_selection_runs (orchestrator Settings_default) None"
    by (simp add: auto_selection_runs_def)
  have b: "auto_selection_runs (orchestrator Settings_default) (Some [])"
    by (simp add: auto_selection_runs_def)
  have c: "auto_selection_runs (orchestrator Settings_default) (Some (lit ''not-a-real-model''))"
    by (simp add: auto_selection_runs_def not_in_models_example)
  show ?thesis
    using a b c
      select_model_routes_by_total_score [OF a, of py_ascii "lit ''analyze and summarize ```''"]
      select_model_routes_by_total_score [OF b, of py_ascii "lit ''Compare them''"]
      select_model_routes_by_total_score [OF c, of py_ascii "lit ''hi''"]
    by (simp add: total_score_examples)
qed

text \<open>
  C2: for a preferred model that is a key of the registry, \<open>select_model\<close> returns that
  model together with the analysis of the query in which \<open>recommended_model\<close> is the
  preferred model, \<open>selection_reason\<close> is \<^verbatim>\<open>User specified model\<close> and \<open>was_auto_selected\<close>
  is false. The scores and factors are those of \<open>analyze_query\<close>, whatever the total score.
\<close>

theorem select_model_user_specified:
  assumes "in_models preferred (orchestrator settings)"
  shows "select_model rt (orchestrator settings) query (Some preferred) =
           (preferred,
            (analyze_query rt (orchestrator settings) query)
              \<lparr>recommended_model := Some preferred,
               selection_reason := Some (lit ''User specified model''),
               was_auto_selected := Some False\<rparr>)"
  using assms in_models_nonempty [OF assms] by (simp add: select_model_def Let_def)

theorem select_model_user_specified_witness:
  "in_models (lit ''gpt-4'') (orchestrator Settings_default) \<and>
   select_model py_ascii (orchestrator Settings_default) (lit ''hi'') (Some (lit ''gpt-4'')) =
     (lit ''gpt-4'',
      \<lparr>length_score = 0, keyword_score = 0, structure_score = 0, total_score = 0,
       factors = [lit ''Simple greeting/response''], recommended_model = Some (lit ''gpt-4''),
       selection_reason = Some (lit ''User specified model''),
       was_auto_selected = Some False\<rparr>)"
proof -
  have h: "in_models (lit ''gpt-4'') (orchestrator Settings_default)"
    by (simp add: in_models_orchestrator)
  show ?thesis
    using h select_model_user_specified [OF h, of py_ascii "lit ''hi''"]
    by (simp add: analyze_hi)
qed

text \<open>
  C3, as stated: the keyword score of every query is 0, 1 or 2. It fails on a query that
  contains a high keyword and a medium keyword: the two additions give 3.
\<close>

theorem keyword_score_exceeds_two:
  "keyword_score (analyze_query py_ascii (orchestrator Settings_default)
     (lit ''analyze and summarize'')) \<notin> {0, 1, 2}"
  by (simp add: keyword_score_both_tiers)

text \<open>C3, amended: the keyword score of every query is 0, 1, 2 or 3.\<close>

theorem keyword_score_range:
  "keyword_score (analyze_query rt self query) \<in> {0, 1, 2, 3}"
  by (simp add: analyze_query_fields keyword_analysis_keyword_score new_analysis_def)

theorem keyword_score_range_witness:
  "keyword_score (analyze_query py_ascii (orchestrator Settings_default) (lit ''Compare them''))
     \<in> {0, 1, 2, 3}"
  using keyword_score_range [of py_ascii "orchestrator Settings_default" "lit ''Compare them''"]
  by simp

text \<open>
  C4: with a preferred model that is not a key of the registry, \<open>select_model\<close> returns
  what it returns with no preferred model. It is a total function: the source has no path
  that raises.
\<close>

theorem select_model_unknown_preference:
  assumes "\<not> in_models preferred self"
  shows "select_model rt self query (Some preferred) = select_model rt self query None"
  using assms by (simp add: select_model_def)

theorem select_model_unknown_preference_witness:
  "\<not> in_models (lit ''not-a-real-model'') (orchestrator Settings_default) \<and>
   select_model py_ascii (orchestrator Settings_default) (lit ''hi'')
     (Some (lit ''not-a-real-model''))
     = select_model py_ascii (orchestrator Settings_default) (lit ''hi'') None"
  using select_model_unknown_preference [OF not_in_models_example, of py_ascii "lit ''hi''"]
    not_in_models_example
  by simp

text \<open>
  C5: the length score follows the number \<open>L\<close> of code points of the query in exclusive
  tiers. \<open>L > 1000\<close> gives 3 and the factor \<^verbatim>\<open>Very long query (>1000 chars)\<close>;
  \<open>500 < L \<le> 1000\<close> gives 2 and \<^verbatim>\<open>Long query (>500 chars)\<close>; \<open>200 < L \<le> 500\<close> gives 1 and
  \<^verbatim>\<open>Medium length query\<close>; \<open>L \<le> 200\<close> gives 0 and no length factor. In each tier the
  factor named is the only length factor of the analysis.
\<close>

theorem length_score_tiers:
  "(1000 < length query \<longrightarrow>
      length_score (analyze_query rt self query) = 3 \<and>
      length_factors (analyze_query rt self query) = [lit ''Very long query (>1000 chars)'']) \<and>
   (500 < length query \<and> length query \<le> 1000 \<longrightarrow>
      length_score (analyze_query rt self query) = 2 \<and>
      length_factors (analyze_query rt self query) = [lit ''Long query (>500 chars)'']) \<and>
   (200 < length query \<and> length query \<le> 500 \<longrightarrow>
      length_score (analyze_query rt self query) = 1 \<and>
      length_factors (analyze_query rt self query) = [lit ''Medium length query'']) \<and>
   (length query \<le> 200 \<longrightarrow>
      length_score (analyze_query rt self query) = 0 \<and>
      length_factors (analyze_query rt self query) = [])"
  by (simp add: analyze_query_fields length_analysis_length_score new_analysis_def
      length_factors_def [of "length_analysis query a" for a] length_analysis_factors
      length_factor_texts_def)

text \<open>Queries of 200, 201, 500, 501, 1000 and 1001 code points.\<close>

theorem length_score_tiers_witness:
  "length_score (analyze_query py_ascii (orchestrator Settings_default) (replicate 200 97)) = 0 \<and>
   length_factors (analyze_query py_ascii (orchestrator Settings_default) (replicate 200 97))
     = [] \<and>
   length_score (analyze_query py_ascii (orchestrator Settings_default) (replicate 201 97)) = 1 \<and>
   length_score (analyze_query py_ascii (orchestrator Settings_default) (replicate 500 97)) = 1 \<and>
   length_factors (analyze_query py_ascii (orchestrator Settings_default) (replicate 500 97))
     = [lit ''Medium length query''] \<and>
   length_score (analyze_query py_ascii (orchestrator Settings_default) (replicate 501 97)) = 2 \<and>
   length_score (analyze_query py_ascii (orchestrator Settings_default) (replicate 1000 97)) = 2 \<and>
   length_score (analyze_query py_ascii (orchestrator Settings_default) (replicate 1001 97)) = 3"
  using length_score_tiers [of "replicate 200 97" py_ascii "orchestrator Settings_default"]
    length_score_tiers [of "replicate 201 97" py_ascii "orchestrator Settings_default"]
    length_score_tiers [of "replicate 500 97" py_ascii "orchestrator Settings_default"]
    length_score_tiers [of "replicate 501 97" py_ascii "orchestrator Settings_default"]
    length_score_tiers [of "replicate 1000 97" py_ascii "orchestrator Settings_default"]
    length_score_tiers [of "replicate 1001 97" py_ascii "orchestrator Settings_default"]
  by simp

text \<open>
  The override of the low keywords holds for any lexicon, whatever the high and medium
  checks added before it.
\<close>

lemma low_keyword_override_lexicon:
  assumes "py_strip rt (str_lower rt query) \<in> set (low (complexity_keywords self))"
  shows "keyword_score (analyze_query rt self query) = 0"
    and "lit ''Simple greeting/response'' \<in> set (factors (analyze_query rt self query))"
proof -
  from assms have ne:
    "filter (\<lambda>kw. py_strip rt (str_lower rt query) = kw) (low (complexity_keywords self)) \<noteq> []"
    by (auto simp: filter_empty_conv)
  show "keyword_score (analyze_query rt self query) = 0"
    by (simp add: analyze_query_fields keyword_analysis_keyword_score ne)
  have "lit ''Simple greeting/response'' \<in>
      set (factors (keyword_analysis rt self query (length_analysis query new_analysis)))"
    using ne by (simp add: keyword_analysis_def Let_def)
  then have "lit ''Simple greeting/response'' \<in>
      set (factors (structure_analysis rt query
        (keyword_analysis rt self query (length_analysis query new_analysis))))"
    using structure_analysis_keeps_factors by blast
  then show "lit ''Simple greeting/response'' \<in> set (factors (analyze_query rt self query))"
    by (simp add: analyze_query_def Let_def)
qed

text \<open>
  C6: for a query whose lowercased and stripped form is one of the low keywords \<^verbatim>\<open>hi\<close>,
  \<^verbatim>\<open>hello\<close>, \<^verbatim>\<open>thanks\<close>, \<^verbatim>\<open>yes\<close>, \<^verbatim>\<open>no\<close>, \<^verbatim>\<open>ok\<close>, \<^verbatim>\<open>bye\<close>, the keyword score of the analysis
  is 0 and the factor \<^verbatim>\<open>Simple greeting/response\<close> is among its factors.
\<close>

theorem low_keyword_override:
  assumes "py_strip rt (str_lower rt query) \<in>
    {lit ''hi'', lit ''hello'', lit ''thanks'', lit ''yes'', lit ''no'', lit ''ok'', lit ''bye''}"
  shows "keyword_score (analyze_query rt (orchestrator settings) query) = 0 \<and>
         lit ''Simple greeting/response'' \<in>
           set (factors (analyze_query rt (orchestrator settings) query))"
proof -
  have "py_strip rt (str_lower rt query) \<in> set (low (complexity_keywords (orchestrator settings)))"
    using assms
    by (simp add: orchestrator_def QueryOrchestrator_init_def COMPLEXITY_KEYWORDS_def)
  then show ?thesis
    by (simp add: low_keyword_override_lexicon)
qed

text \<open>The query \<^verbatim>\<open>ok\<close> with two spaces on either side.\<close>

theorem low_keyword_override_witness:
  "py_strip py_ascii (str_lower py_ascii (lit ''  ok  '')) \<in>
    {lit ''hi'', lit ''hello'', lit ''thanks'', lit ''yes'', lit ''no'', lit ''ok'', lit ''bye''} \<and>
   keyword_score (analyze_query py_ascii (orchestrator Settings_default) (lit ''  ok  '')) = 0 \<and>
   lit ''Simple greeting/response'' \<in>
     set (factors (analyze_query py_ascii (orchestrator Settings_default) (lit ''  ok  '')))"
proof -
  have "py_strip py_ascii (str_lower py_ascii (lit ''  ok  '')) = lit ''ok''"
    by code_simp
  then have h: "py_strip py_ascii (str_lower py_ascii (lit ''  ok  '')) \<in>
    {lit ''hi'', lit ''hello'', lit ''thanks'', lit ''yes'', lit ''no'', lit ''ok'', lit ''bye''}"
    by simp
  show ?thesis using h low_keyword_override [OF h, of Settings_default] by simp
qed

text \<open>
  C7: the total score of an analysis is the sum of its length score, keyword score and
  structure score.
\<close>

theorem total_score_is_sum:
  "total_score (analyze_query rt self query) =
     length_score (analyze_query rt self query) + keyword_score (analyze_query rt self query)
       + structure_score (analyze_query rt self query)"
  by (simp add: analyze_query_def Let_def)

theorem total_score_is_sum_witness:
  "total_score (analyze_query py_ascii (orchestrator Settings_default)
     (lit ''analyze and summarize ```'')) = 5 \<and>
   length_score (analyze_query py_ascii (orchestrator Settings_default)
     (lit ''analyze and summarize ```''))
   + keyword_score (analyze_query py_ascii (orchestrator Settings_default)
     (lit ''analyze and summarize ```''))
   + structure_score (analyze_query py_ascii (orchestrator Settings_default)
     (lit ''analyze and summarize ```'')) = 5"
  using total_score_is_sum [of py_ascii "orchestrator Settings_default"
      "lit ''analyze and summarize ```''"]
  by (simp add: total_score_examples)

text \<open>
  C9: for every query and every preferred model, absent, empty or unknown included, the
  model that \<open>select_model\<close> returns is a key of the registry, which is \<^verbatim>\<open>gpt-4\<close> or
  \<^verbatim>\<open>gpt-35-turbo\<close>.
\<close>

theorem select_model_in_registry:
  "in_models (fst (select_model rt (orchestrator settings) query preferred_model))
     (orchestrator settings) \<and>
   fst (select_model rt (orchestrator settings) query preferred_model)
     \<in> {lit ''gpt-4'', lit ''gpt-35-turbo''}"
  by (auto simp: select_model_def select_by_score_fst in_models_orchestrator split: option.splits)

theorem select_model_in_registry_witness:
  "in_models (fst (select_model py_ascii (orchestrator Settings_default) (lit ''hi'') (Some [])))
     (orchestrator Settings_default)"
  using select_model_in_registry [of py_ascii Settings_default "lit ''hi''" "Some []"]
  by simp

text \<open>
  C10: the model that \<open>select_model\<close> returns is the \<open>recommended_model\<close> of the analysis
  it returns.
\<close>

theorem select_model_recommended:
  "recommended_model (snd (select_model rt self query preferred_model)) =
     Some (fst (select_model rt self query preferred_model))"
  by (simp add: select_model_def select_by_score_snd Let_def split: option.splits)

theorem select_model_recommended_witness:
  "recommended_model (snd (select_model py_ascii (orchestrator Settings_default) (lit ''hi'')
     (Some (lit ''gpt-4'')))) =
   Some (fst (select_model py_ascii (orchestrator Settings_default) (lit ''hi'')
     (Some (lit ''gpt-4''))))"
  using select_model_recommended [of py_ascii "orchestrator Settings_default" "lit ''hi''"
      "Some (lit ''gpt-4'')"]
  by simp

end
